theory Spec2Isabelle
  imports Complex_Main "HOL-Library.AList"
begin

section \<open>JavaScript values\<close>

text \<open>
  The client handles parsed JSON bodies. A value is one of the JSON shapes, or one of the two
  non-JSON values the code can produce while working on them: \<open>undefined\<close> (a missing
  property) and \<open>NaN\<close> (arithmetic on a missing number). An object is the list of its own
  properties in the order of \<open>Object.keys\<close>; its keys are distinct in every parsed body.
  An assignment to a property replaces its value in place or adds the property at the end
  (\<open>AList.update\<close>); that JavaScript lists keys that are array indices first is left out,
  the order of keys deciding nothing below. Numbers are exact rationals, where the program
  has IEEE doubles.
\<close>

datatype jsval =
    Undefined
  | JNull
  | JBool bool
  | JNum rat
  | JNaN
  | JStr string
  | JArr "jsval list"
  | JObj "(string \<times> jsval) list"

datatype err_kind = TypeError | SyntaxError | HttpError | ApiError | NotFoundError

text \<open>
  A thrown error with the fields the client reads in its \<open>catch\<close> blocks: \<open>code\<close>,
  \<open>statusCode\<close>, \<open>type\<close>, \<open>request\<close> (here only whether it is set), and the fields
  \<open>request\<close> stores on an API error. Message texts are not modelled.
\<close>

record js_error =
  kind :: err_kind
  code :: "string option"
  statusCode :: "int option"
  etype :: jsval
  description :: jsval
  nonCritical :: "bool option"
  has_request :: bool

definition type_error :: js_error where
  "type_error = \<lparr>kind = TypeError, code = None, statusCode = None, etype = Undefined,
     description = Undefined, nonCritical = None, has_request = False\<rparr>"

fun string_of_nat :: "nat \<Rightarrow> string" where
  "string_of_nat n =
     (if n < 10 then [''0123456789'' ! n]
      else string_of_nat (n div 10) @ [''0123456789'' ! (n mod 10)])"

text \<open>The own properties of a value: those of an object, or the indices of an array.\<close>

fun own_props :: "jsval \<Rightarrow> (string \<times> jsval) list" where
  "own_props (JObj kvs) = kvs"
| "own_props (JArr xs) = zip (map string_of_nat [0..<length xs]) xs"
| "own_props (JStr s) = zip (map string_of_nat [0..<length s]) (map (\<lambda>ch. JStr [ch]) s)"
| "own_props _ = []"

text \<open>\<open>Object.keys(v)\<close>: a TypeError on \<open>null\<close> and \<open>undefined\<close>.\<close>

fun object_keys :: "jsval \<Rightarrow> js_error + string list" where
  "object_keys Undefined = Inl type_error"
| "object_keys JNull = Inl type_error"
| "object_keys v = Inr (map fst (own_props v))"

section \<open>HueClient: estimating Zigbee messages\<close>

text \<open>
  \<open>numberOfZigbeeMessages (body = {})\<close>: the default applies to a missing argument only.
\<close>

definition numberOfZigbeeMessages :: "jsval \<Rightarrow> js_error + nat" where
  "numberOfZigbeeMessages body0 =
     (let body = (if body0 = Undefined then JObj [] else body0) in
      case object_keys body of
        Inl e \<Rightarrow> Inl e
      | Inr ks \<Rightarrow>
          (let n0 = (0::nat);
               n1 = (if ''on'' \<in> set ks then n0 + 1 else n0);
               n2 = (if ''bri'' \<in> set ks \<or> ''bri_inc'' \<in> set ks then n1 + 1 else n1);
               n3 = (if ''xy'' \<in> set ks \<or> ''ct'' \<in> set ks \<or> ''hue'' \<in> set ks \<or>
                        ''sat'' \<in> set ks \<or> ''effect'' \<in> set ks then n2 + 1 else n2)
           in Inr (if n3 = 0 then 1 else n3)))"

text \<open>
  The estimate as the specification words it: one for each field group present in the body,
  and at least one.
\<close>

definition field_groups :: "string list list" where
  "field_groups = [[''on''], [''bri'', ''bri_inc''], [''xy'', ''ct'', ''hue'', ''sat'', ''effect'']]"

definition groups_present :: "string list \<Rightarrow> nat" where
  "groups_present ks = length (filter (\<lambda>g. \<exists>f \<in> set g. f \<in> set ks) field_groups)"

section \<open>Strings and property access\<close>

text \<open>\<open>s.split(c)\<close> for a one-character separator: never an empty list.\<close>

fun split_on :: "char \<Rightarrow> string \<Rightarrow> string list" where
  "split_on c [] = [[]]"
| "split_on c (x # xs) =
     (if x = c then [] # split_on c xs
      else (case split_on c xs of [] \<Rightarrow> [[x]] | w # ws \<Rightarrow> (x # w) # ws))"

definition startsWith :: "string \<Rightarrow> string \<Rightarrow> bool" where
  "startsWith s p = (take (length p) s = p)"

text \<open>\<open>typeof v === 'object' && v != null\<close>: objects and arrays.\<close>

fun is_object :: "jsval \<Rightarrow> bool" where
  "is_object (JObj _) = True"
| "is_object (JArr _) = True"
| "is_object _ = False"

text \<open>\<open>v == null\<close>.\<close>

fun is_nullish :: "jsval \<Rightarrow> bool" where
  "is_nullish Undefined = True"
| "is_nullish JNull = True"
| "is_nullish _ = False"

text \<open>
  \<open>v[k]\<close> on a value that is neither \<open>null\<close> nor \<open>undefined\<close>: an own property, the
  \<open>length\<close> of an array or string, else \<open>undefined\<close>. Members inherited from the
  prototypes (methods) are not values of the model.
\<close>

definition lookup_prop :: "jsval \<Rightarrow> string \<Rightarrow> jsval" where
  "lookup_prop v k =
     (case map_of (own_props v) k of
        Some x \<Rightarrow> x
      | None \<Rightarrow>
          (if k = ''length'' then
             (case v of
                JArr xs \<Rightarrow> JNum (of_nat (length xs))
              | JStr s \<Rightarrow> JNum (of_nat (length s))
              | _ \<Rightarrow> Undefined)
           else Undefined))"

definition get_prop :: "jsval \<Rightarrow> string \<Rightarrow> js_error + jsval" where
  "get_prop v k = (if is_nullish v then Inl type_error else Inr (lookup_prop v k))"

text \<open>Whether \<open>k\<close> names an own property of \<open>v\<close>, which \<open>lookup_prop\<close> then reads.\<close>

definition has_own :: "jsval \<Rightarrow> string \<Rightarrow> bool" where
  "has_own v k =
     (map_of (own_props v) k \<noteq> None \<or>
      (k = ''length'' \<and> (case v of JArr xs \<Rightarrow> True | JStr s \<Rightarrow> True | _ \<Rightarrow> False)))"

section \<open>HueClient: session, transport and trace\<close>

text \<open>
  Number formatting, number parsing and JSON parsing are the runtime's:
  \<open>NumberToString\<close>, \<open>StringToNumber\<close> (\<open>None\<close> is \<open>NaN\<close>) and \<open>JSONparse\<close>
  (\<open>None\<close> is a SyntaxError) are parameters of the model. So are the prototypes:
  \<open>Inherits v k\<close> says that the object or array \<open>v\<close> inherits a member named \<open>k\<close>
  (\<open>constructor\<close>, \<open>toString\<close>, the methods of arrays, ...).
\<close>

record js_runtime =
  NumberToString :: "rat \<Rightarrow> string"
  StringToNumber :: "string \<Rightarrow> rat option"
  JSONparse :: "string \<Rightarrow> jsval option"
  Inherits :: "jsval \<Rightarrow> string \<Rightarrow> bool"

fun join_with :: "string \<Rightarrow> string list \<Rightarrow> string" where
  "join_with sep [] = []"
| "join_with sep [x] = x"
| "join_with sep (x # y # zs) = x @ sep @ join_with sep (y # zs)"

text \<open>\<open>String(v)\<close>, as string concatenation and template literals apply it.\<close>

fun to_string :: "js_runtime \<Rightarrow> jsval \<Rightarrow> string" where
  "to_string rt Undefined = ''undefined''"
| "to_string rt JNull = ''null''"
| "to_string rt (JBool b) = (if b then ''true'' else ''false'')"
| "to_string rt (JNum r) = NumberToString rt r"
| "to_string rt JNaN = ''NaN''"
| "to_string rt (JStr s) = s"
| "to_string rt (JArr xs) =
     join_with '','' (map (\<lambda>x. if is_nullish x then [] else to_string rt x) xs)"
| "to_string rt (JObj kvs) = ''[object Object]''"

text \<open>
  The session: \<open>_options.apiKey\<close>, \<open>_options.path\<close>, \<open>_options.headers\<close> (\<open>None\<close> when
  never set, \<open>Some v\<close> for \<open>{ 'hue-application-key': v }\<close>), the three wait times,
  \<open>this.path\<close> and the throttle gate \<open>this.waitForIt\<close>.
\<close>

record client =
  apiKey :: jsval
  options_path :: string
  options_headers :: "jsval option"
  waitTimePut :: nat
  waitTimePutGroup :: nat
  waitTimeResend :: nat
  this_path :: string
  waitForIt :: bool

text \<open>
  One call of the inherited \<open>HttpClient.request\<close>: its arguments, and \<open>this.path\<close> at
  the time of the call.
\<close>

record http_call =
  c_method :: string
  c_path :: string
  c_resource :: string
  c_body :: jsval
  c_headers :: "jsval option"

record http_response =
  r_headers :: "(string \<times> string) list"
  r_body :: jsval
  r_request :: bool

text \<open>
  The transport is outside the repository: it is a parameter, the outcome of the
  \<open>k\<close>-th call from now for each \<open>k\<close>, an error thrown or a response.
\<close>

type_synonym transport = "nat \<Rightarrow> http_call \<Rightarrow> js_error + http_response"

definition later :: "transport \<Rightarrow> transport" where
  "later net = (\<lambda>k. net (Suc k))"

text \<open>
  What a call of the client does besides returning: the transport calls it issues, the
  errors it emits on the \<open>error\<close> channel (a listener is taken to be registered),
  the delays it awaits and the timers it sets.
\<close>

datatype action =
    Request http_call
  | EmitError js_error
  | Sleep nat
  | SetTimeout nat

text \<open>
  The response as \<open>request\<close> returns it: \<open>errors\<close> and \<open>success\<close> are set by the
  v1 executor only.
\<close>

record hue_response =
  h_headers :: "(string \<times> string) list"
  h_body :: jsval
  h_errors :: "(jsval \<times> jsval) list option"
  h_success :: "(string \<times> jsval) list option"

section \<open>HueClient: the v1 executor\<close>

definition apiV1Resources :: "string list" where
  "apiV1Resources = [''capabilities'', ''config'', ''info'', ''lights'', ''groups'',
     ''schedules'', ''scenes'', ''sensors'', ''rules'', ''resourcelinks'']"

definition nonCriticalApiErrorTypes :: "jsval list" where
  "nonCriticalApiErrorTypes = [JNum 6, JNum 7, JNum 8, JNum 201]"

text \<open>The error object built for an item's \<open>error\<close> entry \<open>e\<close>.\<close>

definition api_error :: "bool \<Rightarrow> jsval \<Rightarrow> js_error" where
  "api_error req e =
     \<lparr>kind = ApiError, code = None, statusCode = None,
      etype = lookup_prop e ''type'', description = lookup_prop e ''description'',
      nonCritical = Some (lookup_prop e ''type'' \<in> set nonCriticalApiErrorTypes),
      has_request = req\<rparr>"

text \<open>
  \<open>response.success[key] = s[path]\<close> for each path of a \<open>success\<close> entry, the key being
  the last segment of the path.
\<close>

fun flatten_success ::
  "jsval \<Rightarrow> string list \<Rightarrow> (string \<times> jsval) list \<Rightarrow> (string \<times> jsval) list" where
  "flatten_success s [] succ = succ"
| "flatten_success s (p # ps) succ =
     flatten_success s ps (AList.update (last (split_on CHR ''/'' p)) (lookup_prop s p) succ)"

text \<open>
  The body of the loop over the response array, on the envelope so far (the errors and
  the successes): the actions, and the error thrown or the new envelope.
\<close>

type_synonym envelope = "(jsval \<times> jsval) list \<times> (string \<times> jsval) list"

definition process_item ::
  "bool \<Rightarrow> jsval \<Rightarrow> envelope \<Rightarrow> action list \<times> (js_error + envelope)" where
  "process_item req item env =
     (case get_prop item ''error'' of
        Inl te \<Rightarrow> ([], Inl te)
      | Inr e \<Rightarrow>
          (if is_object e \<and> lookup_prop e ''type'' \<notin> set nonCriticalApiErrorTypes
           then ([EmitError (api_error req e)], Inl (api_error req e))
           else
             (let errs = (if is_object e
                          then fst env @ [(lookup_prop e ''type'', lookup_prop e ''description'')]
                          else fst env);
                  t = (if is_object e then [EmitError (api_error req e)] else []);
                  s = lookup_prop item ''success''
              in (t, Inr (errs,
                    (if is_object s then flatten_success s (map fst (own_props s)) (snd env)
                     else snd env))))))"

fun process_items ::
  "bool \<Rightarrow> jsval list \<Rightarrow> envelope \<Rightarrow> action list \<times> (js_error + envelope)" where
  "process_items req [] env = ([], Inr env)"
| "process_items req (item # items) env =
     (case process_item req item env of
        (t, Inl e) \<Rightarrow> (t, Inl e)
      | (t, Inr env') \<Rightarrow>
          (case process_items req items env' of (t', r) \<Rightarrow> (t @ t', r)))"

text \<open>The \<open>try\<close> block of \<open>request\<close>, on the outcome of the transport call.\<close>

definition try_request :: "js_error + http_response \<Rightarrow> action list \<times> (js_error + hue_response)" where
  "try_request outcome =
     (case outcome of
        Inl e \<Rightarrow> ([], Inl e)
      | Inr resp \<Rightarrow>
          (let b = (if map_of (r_headers resp) ''content-length'' = Some ''0''
                    then JNull else r_body resp)
           in case b of
                JArr items \<Rightarrow>
                  (case process_items (r_request resp) items ([], []) of
                     (t, Inl e) \<Rightarrow> (t, Inl e)
                   | (t, Inr env) \<Rightarrow>
                       (t, Inr \<lparr>h_headers = r_headers resp, h_body = b,
                                h_errors = Some (fst env), h_success = Some (snd env)\<rparr>))
              | _ \<Rightarrow>
                  ([], Inr \<lparr>h_headers = r_headers resp, h_body = b,
                            h_errors = Some [], h_success = Some []\<rparr>)))"

text \<open>The condition of both \<open>catch\<close> blocks for sending the request again.\<close>

definition resend :: "client \<Rightarrow> js_error \<Rightarrow> nat \<Rightarrow> bool" where
  "resend c error retry =
     ((code error = Some ''ECONNRESET'' \<or> statusCode error = Some 503 \<or>
       etype error = JNum 901) \<and>
      has_request error \<and> 0 < waitTimeResend c \<and> retry < 5)"

text \<open>The arguments of the transport call made by \<open>request\<close> and by \<open>request2\<close>.\<close>

definition v1_call :: "client \<Rightarrow> string \<Rightarrow> string \<Rightarrow> jsval \<Rightarrow> http_call" where
  "v1_call c method resource body =
     \<lparr>c_method = method, c_path = this_path c, c_resource = resource,
      c_body = (if body = Undefined then JNull else body), c_headers = None\<rparr>"

definition v2_call :: "client \<Rightarrow> string \<Rightarrow> string \<Rightarrow> jsval \<Rightarrow> http_call" where
  "v2_call c method resource body =
     \<lparr>c_method = method, c_path = this_path c, c_resource = resource,
      c_body = (if body = Undefined then JNull else body), c_headers = options_headers c\<rparr>"

function request ::
  "transport \<Rightarrow> client \<Rightarrow> string \<Rightarrow> string \<Rightarrow> jsval \<Rightarrow> nat \<Rightarrow>
   action list \<times> (js_error + hue_response)" where
  "request net c method resource body0 retry =
     (let body = (if body0 = Undefined then JNull else body0);
          cl = v1_call c method resource body0
      in case try_request (net 0 cl) of
           (t, Inr response) \<Rightarrow> (Request cl # t, Inr response)
         | (t, Inl error) \<Rightarrow>
             (if resend c error retry
              then (case request (later net) c method resource body (retry + 1) of
                      (t', r) \<Rightarrow>
                        (Request cl # t @ [EmitError error, Sleep (waitTimeResend c)] @ t', r))
              else (Request cl # t, Inl error)))"
  by pat_completeness auto
termination
  by (relation "measure (\<lambda>(net, c, method, resource, body0, retry). 5 - retry)")
    (auto simp: resend_def)

declare request.simps [simp del]

section \<open>HueClient: the v2 executor\<close>

text \<open>
  \<open>response.body?.errors ?? []\<close> as the \<open>for ... of\<close> loop iterates it: a TypeError when
  it cannot be iterated.
\<close>

definition v2_errors :: "jsval \<Rightarrow> js_error + jsval list" where
  "v2_errors b =
     (if is_nullish b then Inr []
      else (case lookup_prop b ''errors'' of
              Undefined \<Rightarrow> Inr []
            | JNull \<Rightarrow> Inr []
            | JArr es \<Rightarrow> Inr es
            | JStr s \<Rightarrow> Inr (map (\<lambda>ch. JStr [ch]) s)
            | _ \<Rightarrow> Inl type_error))"

text \<open>The error emitted for an entry of \<open>errors\<close>: a plain \<open>Error\<close>, only a message.\<close>

definition v2_error :: js_error where
  "v2_error = \<lparr>kind = ApiError, code = None, statusCode = None, etype = Undefined,
     description = Undefined, nonCritical = None, has_request = False\<rparr>"

text \<open>The \<open>try\<close> block of \<open>request2\<close>, on the outcome of the transport call.\<close>

definition try_request2 :: "js_error + http_response \<Rightarrow> action list \<times> (js_error + hue_response)" where
  "try_request2 outcome =
     (case outcome of
        Inl e \<Rightarrow> ([], Inl e)
      | Inr resp \<Rightarrow>
          (case v2_errors (r_body resp) of
             Inl te \<Rightarrow> ([], Inl te)
           | Inr es \<Rightarrow>
               (map (\<lambda>e. EmitError v2_error) es,
                (case get_prop (r_body resp) ''data'' of
                   Inl te \<Rightarrow> Inl te
                 | Inr d \<Rightarrow> Inr \<lparr>h_headers = r_headers resp, h_body = d,
                                  h_errors = None, h_success = None\<rparr>))))"

definition request2 ::
  "transport \<Rightarrow> client \<Rightarrow> string \<Rightarrow> string \<Rightarrow> jsval \<Rightarrow> nat \<Rightarrow>
   action list \<times> (js_error + hue_response)" where
  "request2 net c method resource body0 retry =
     (let body = (if body0 = Undefined then JNull else body0);
          cl = v2_call c method resource body0
      in case try_request2 (net 0 cl) of
           (t, Inr response) \<Rightarrow> (Request cl # t, Inr response)
         | (t, Inl error) \<Rightarrow>
             (if resend c error retry
              then (case request (later net) c method resource body (retry + 1) of
                      (t', r) \<Rightarrow>
                        (Request cl # t @ [EmitError error, Sleep (waitTimeResend c)] @ t', r))
              else (Request cl # t, Inl error)))"

section \<open>HueClient: get\<close>

datatype executor = V1 | V2

record routing =
  via :: executor
  base_path :: string
  addressed :: string
  remainder :: "string list"

text \<open>
  The \<open>switch\<close> of \<open>get\<close> on the first segment of the resource: the executor, the value of
  \<open>this.path\<close>, the resource requested and the keys left for walking the body.
\<close>

definition route :: "string \<Rightarrow> string \<Rightarrow> routing" where
  "route opath resource =
     (case split_on CHR ''/'' (drop 1 resource) of
        [] \<Rightarrow> \<lparr>via = V2, base_path = ''/clip/v2/resource'', addressed = resource,
                remainder = []\<rparr>
      | p0 # ps \<Rightarrow>
          (if p0 \<in> {[], ''capabilities'', ''config''} then
             (if 1 < length (p0 # ps)
              then \<lparr>via = V1, base_path = opath, addressed = ''/'' @ p0, remainder = ps\<rparr>
              else \<lparr>via = V1, base_path = opath, addressed = resource, remainder = []\<rparr>)
           else if p0 \<in> {''info'', ''lights'', ''groups'', ''schedules'', ''scenes'',
                          ''sensors'', ''rules'', ''resourcelinks''} then
             (case ps of
                p1 # rest \<Rightarrow>
                  (if 2 < length (p0 # ps)
                   then \<lparr>via = V1, base_path = opath, addressed = ''/'' @ p0 @ ''/'' @ p1,
                         remainder = rest\<rparr>
                   else \<lparr>via = V1, base_path = opath, addressed = resource, remainder = []\<rparr>)
              | [] \<Rightarrow> \<lparr>via = V1, base_path = opath, addressed = resource, remainder = []\<rparr>)
           else
             (case ps of
                p1 # rest \<Rightarrow>
                  \<lparr>via = V2, base_path = ''/clip/v2/resource'',
                   addressed = ''/'' @ p0 @ ''/'' @ p1, remainder = ''0'' # rest\<rparr>
              | [] \<Rightarrow>
                  \<lparr>via = V2, base_path = ''/clip/v2/resource'',
                   addressed = (if p0 = ''resource'' then ''/'' else resource),
                   remainder = []\<rparr>)))"

text \<open>
  The loop of \<open>get\<close> over the keys left: a key is followed on objects and arrays only.
  The keys are the caller's: one that names no own property but an inherited member gives
  that member, a function or a prototype, which is no value of the model. The walk then
  ends with \<open>None\<close>, and what \<open>get\<close> returns is not said.
\<close>

fun walk :: "js_runtime \<Rightarrow> jsval \<Rightarrow> string list \<Rightarrow> jsval option" where
  "walk rt body [] = Some body"
| "walk rt body (k # ks) =
     (if is_object body then
        (if \<not> has_own body k \<and> Inherits rt body k then None
         else walk rt (lookup_prop body k) ks)
      else walk rt body ks)"

definition not_found :: js_error where
  "not_found = \<lparr>kind = NotFoundError, code = None, statusCode = None, etype = Undefined,
     description = Undefined, nonCritical = None, has_request = False\<rparr>"

text \<open>The executor bound to the local \<open>request\<close> of \<open>get\<close>.\<close>

definition executor_of ::
  "executor \<Rightarrow> transport \<Rightarrow> client \<Rightarrow> string \<Rightarrow> string \<Rightarrow> jsval \<Rightarrow> nat \<Rightarrow>
   action list \<times> (js_error + hue_response)" where
  "executor_of x = (case x of V1 \<Rightarrow> request | V2 \<Rightarrow> request2)"

text \<open>
  \<open>get\<close>: the session, the actions, and the error thrown or the value returned;
  \<open>None\<close> where the walk has left the values of the model.
\<close>

definition get ::
  "js_runtime \<Rightarrow> transport \<Rightarrow> client \<Rightarrow> string \<Rightarrow>
   client \<times> action list \<times> (js_error + jsval) option" where
  "get rt net c resource =
     (if take 1 resource \<noteq> ''/'' then (c, [], Some (Inl type_error))
      else
        (let ro = route (options_path c) resource;
             c' = c\<lparr>this_path := base_path ro\<rparr>
         in case executor_of (via ro) net c' ''GET'' (addressed ro) Undefined 0 of
              (t, Inl e) \<Rightarrow> (c', t, Some (Inl e))
            | (t, Inr response) \<Rightarrow>
                (case walk rt (h_body response) (remainder ro) of
                   None \<Rightarrow> (c', t, None)
                 | Some body \<Rightarrow>
                     (if is_nullish body \<and> 0 < length (remainder ro)
                      then (c', t, Some (Inl not_found))
                      else (c', t, Some (Inr body))))))"

section \<open>HueClient: put, post and delete\<close>

text \<open>
  A call either is suspended at \<open>await once(this, '_go')\<close>, having done nothing yet, or
  runs on. A suspended \<open>put\<close> tests the gate again when \<open>_go\<close> is emitted: it is \<open>put\<close>
  on the state of that moment.
\<close>

datatype 'a async = Awaiting_go | Settled 'a

text \<open>\<open>apiV1Resources.includes(resource.slice(1).split('/')[0])\<close>.\<close>

definition is_v1_resource :: "string \<Rightarrow> bool" where
  "is_v1_resource resource =
     (case split_on CHR ''/'' (drop 1 resource) of
        [] \<Rightarrow> False
      | p0 # ps \<Rightarrow> p0 \<in> set apiV1Resources)"

text \<open>The end of \<open>put\<close>, and all of \<open>post\<close> and \<open>delete\<close>.\<close>

definition issue ::
  "transport \<Rightarrow> client \<Rightarrow> string \<Rightarrow> string \<Rightarrow> jsval \<Rightarrow>
   client \<times> action list \<times> (js_error + hue_response)" where
  "issue net c method resource body =
     (if is_v1_resource resource
      then (let c' = c\<lparr>this_path := options_path c\<rparr>
            in case request net c' method resource body 0 of (t, r) \<Rightarrow> (c', t, r))
      else (let c' = c\<lparr>this_path := ''/clip/v2/resource''\<rparr>
            in case request2 net c' method resource body 0 of (t, r) \<Rightarrow> (c', t, r)))"

definition put ::
  "transport \<Rightarrow> client \<Rightarrow> string \<Rightarrow> jsval \<Rightarrow>
   client \<times> action list \<times> (js_error + hue_response) async" where
  "put net c resource body =
     (if waitForIt c then (c, [], Awaiting_go)
      else
        (case numberOfZigbeeMessages body of
           Inl te \<Rightarrow> (c, [], Settled (Inl te))
         | Inr n \<Rightarrow>
             (let timeout = n * (if startsWith resource ''/groups''
                                 then waitTimePutGroup c else waitTimePut c);
                  c1 = (if 0 < timeout then c\<lparr>waitForIt := True\<rparr> else c);
                  t1 = (if 0 < timeout then [SetTimeout timeout] else [])
              in case issue net c1 ''PUT'' resource body of
                   (c2, t, r) \<Rightarrow> (c2, t1 @ t, Settled r))))"

text \<open>The callback of the timer set by \<open>put\<close>; it emits \<open>_go\<close>.\<close>

definition go :: "client \<Rightarrow> client" where
  "go c = c\<lparr>waitForIt := False\<rparr>"

definition post ::
  "transport \<Rightarrow> client \<Rightarrow> string \<Rightarrow> jsval \<Rightarrow>
   client \<times> action list \<times> (js_error + hue_response) async" where
  "post net c resource body =
     (case issue net c ''POST'' resource body of (c', t, r) \<Rightarrow> (c', t, Settled r))"

definition delete ::
  "transport \<Rightarrow> client \<Rightarrow> string \<Rightarrow> jsval \<Rightarrow>
   client \<times> action list \<times> (js_error + hue_response) async" where
  "delete net c resource body =
     (case issue net c ''DELETE'' resource body of (c', t, r) \<Rightarrow> (c', t, Settled r))"

section \<open>HueClient: the API key\<close>

text \<open>The setter of \<open>apiKey\<close>.\<close>

definition api_path :: "js_runtime \<Rightarrow> jsval \<Rightarrow> string" where
  "api_path rt v = ''/api'' @ (if is_nullish v then [] else ''/'' @ to_string rt v)"

definition set_apiKey :: "js_runtime \<Rightarrow> client \<Rightarrow> jsval \<Rightarrow> client" where
  "set_apiKey rt c v =
     c\<lparr>apiKey := v, options_headers := Some v, options_path := api_path rt v\<rparr>"

text \<open>
  The lines of the constructor that derive the path and the header from
  \<open>params.apiKey\<close>, on a session with the other options parsed.
\<close>

fun truthy :: "jsval \<Rightarrow> bool" where
  "truthy Undefined = False"
| "truthy JNull = False"
| "truthy (JBool b) = b"
| "truthy (JNum r) = (r \<noteq> 0)"
| "truthy JNaN = False"
| "truthy (JStr s) = (s \<noteq> [])"
| "truthy (JArr xs) = True"
| "truthy (JObj kvs) = True"

definition construct :: "js_runtime \<Rightarrow> client \<Rightarrow> jsval \<Rightarrow> client" where
  "construct rt c key =
     (if truthy key
      then c\<lparr>apiKey := key, options_path := ''/api'' @ ''/'' @ to_string rt key,
             options_headers := Some key, waitForIt := False\<rparr>
      else c\<lparr>apiKey := key, options_path := ''/api'', options_headers := None,
             waitForIt := False\<rparr>)"

text \<open>
  \<open>getApiKey\<close>; \<open>hostname\<close> is the host name the operating system reports. The
  body posted is \<open>{ devicetype: application#host }\<close>, and the request is made with the
  key set to \<open>null\<close> and \<open>this.path\<close> set to \<open>/api\<close>. The result is the session,
  the actions, and the error thrown or the key returned.
\<close>

definition devicetype :: "string \<Rightarrow> string \<Rightarrow> jsval" where
  "devicetype app hostname =
     JObj [(''devicetype'',
       JStr (app @ ''#'' @ (case split_on CHR ''.'' hostname of
                               [] \<Rightarrow> ''undefined'' | h # hs \<Rightarrow> h)))]"

definition without_key :: "js_runtime \<Rightarrow> client \<Rightarrow> client" where
  "without_key rt c = (set_apiKey rt c JNull)\<lparr>this_path := ''/api''\<rparr>"

definition getApiKey ::
  "js_runtime \<Rightarrow> string \<Rightarrow> transport \<Rightarrow> client \<Rightarrow> jsval \<Rightarrow>
   client \<times> action list \<times> (js_error + jsval)" where
  "getApiKey rt hostname net c application =
     (case application of
        JStr app \<Rightarrow>
          (if app = [] then (c, [], Inl type_error)
           else
             (let saved = apiKey c;
                  body = devicetype app hostname;
                  c1 = without_key rt c
              in case request net c1 ''POST'' ''/'' body 0 of
                   (t, Inr response) \<Rightarrow>
                     (let username =
                            (case h_success response of
                               None \<Rightarrow> Undefined
                             | Some succ \<Rightarrow> lookup_prop (JObj succ) ''username'');
                          c2 = set_apiKey rt c1 username
                      in (c2, t, Inr (apiKey c2)))
                 | (t, Inl error) \<Rightarrow> (set_apiKey rt c1 saved, t, Inl error)))
      | _ \<Rightarrow> (c, [], Inl type_error))"

text \<open>
  The credentials of a session are derived from its key when the path is the one the
  setter computes from the key and there is a headers object that carries the key.
\<close>

definition credentials_derived :: "js_runtime \<Rightarrow> client \<Rightarrow> bool" where
  "credentials_derived rt c =
     (options_path c = api_path rt (apiKey c) \<and> options_headers c = Some (apiKey c))"

section \<open>EventStreamClient\<close>

text \<open>
  The client of the event stream: the options \<open>retryTime\<close>, \<open>raw\<close> and \<open>version\<close>,
  \<open>requestId\<close>, whether \<open>this.request\<close> is set, whether a socket is open that carries
  the \<open>close\<close> listener of \<open>listen\<close>, \<open>this.listening\<close>, the button map (\<open>None\<close>
  before \<open>init\<close>; a value \<open>None\<close> in it is \<open>NaN\<close>) and the text received since the
  last frame.
\<close>

record es_client =
  retryTime :: nat
  raw :: bool
  version :: nat
  requestId :: nat
  es_request :: bool
  es_socket :: bool
  listening :: bool
  buttonMap :: "(string \<times> rat option) list option"
  buffer :: string

text \<open>
  What the client does: the events it emits (\<open>changed\<close>, \<open>notification\<close>, \<open>data\<close>,
  \<open>error\<close>, \<open>closed\<close>, \<open>request\<close>, \<open>response\<close>, \<open>listening\<close>), the request it
  destroys, the delay it awaits and the request it opens in \<open>listen\<close>, with its id; and
  the close of the socket, which the runtime reports.
\<close>

datatype es_event =
    Changed jsval jsval
  | Notification jsval
  | DataReceived string
  | ErrorEmitted js_error
  | ClosedEmitted
  | RequestEmitted nat
  | ResponseEmitted
  | ListeningEmitted
  | Destroyed
  | SocketClosed
  | Await nat
  | Listen nat

subsection \<open>listen and close\<close>

definition listen :: "es_client \<Rightarrow> es_client \<times> es_event list" where
  "listen es =
     (es\<lparr>es_request := True, requestId := requestId es + 1\<rparr>, [Listen (requestId es + 1)])"

text \<open>\<open>close (retry = false)\<close>; the delay is in milliseconds.\<close>

definition close :: "es_client \<Rightarrow> bool \<Rightarrow> es_client \<times> es_event list" where
  "close es retry =
     (let t1 = (if es_request es then [Destroyed] else []);
          es1 = es\<lparr>es_request := False\<rparr>;
          t2 = (if listening es1 then [ClosedEmitted] else []);
          es2 = es1\<lparr>listening := False\<rparr>
      in if retry \<and> 0 < retryTime es2
         then (case listen es2 of
                 (es3, t3) \<Rightarrow> (es3, t1 @ t2 @ [Await (retryTime es2 * 1000)] @ t3))
         else (es2, t1 @ t2))"

text \<open>
  The listeners that \<open>listen\<close> registers on the request: on \<open>socket\<close>, the request is
  announced and the \<open>close\<close> listener is put on the socket; on \<open>response\<close>, the client is
  listening and the text received starts empty.
\<close>

definition on_socket :: "es_client \<Rightarrow> es_client \<times> es_event list" where
  "on_socket es = (es\<lparr>es_socket := True\<rparr>, [RequestEmitted (requestId es)])"

definition on_response :: "es_client \<Rightarrow> es_client \<times> es_event list" where
  "on_response es =
     (es\<lparr>listening := True, buffer := []\<rparr>, [ResponseEmitted, ListeningEmitted])"

text \<open>The \<open>close\<close> listener on the socket: \<open>await this.close(true)\<close>.\<close>

definition on_socket_close :: "es_client \<Rightarrow> es_client \<times> es_event list" where
  "on_socket_close es = close es True"

text \<open>The socket closes: if it carries the listener, the runtime runs it.\<close>

definition socket_closes :: "es_client \<Rightarrow> es_client \<times> es_event list" where
  "socket_closes es =
     (if es_socket es
      then (case on_socket_close (es\<lparr>es_socket := False\<rparr>) of
              (es', t) \<Rightarrow> (es', SocketClosed # t))
      else (es, []))"

text \<open>
  A close of the stream by its caller: \<open>close()\<close>. Where it destroys the request, the
  socket of the request is destroyed with it and closes. \<open>close\<close> has removed the
  listeners of the request, not the one on the socket.
\<close>

definition caller_close :: "es_client \<Rightarrow> es_client \<times> es_event list" where
  "caller_close es =
     (case close es False of
        (es1, t1) \<Rightarrow>
          (if es_request es
           then (case socket_closes es1 of (es2, t2) \<Rightarrow> (es2, t1 @ t2))
           else (es1, t1)))"

subsection \<open>Decoding notifications\<close>


























subsection \<open>Framing\<close>







section \<open>Scenarios\<close>

text \<open>
  Concrete sessions and transports, for evaluating the clients: a session with the default
  wait times, a transport that replies with the given outcomes in turn (and times out
  afterwards), the API responses and the stream frame used below.
\<close>

definition session :: client where
  "session = \<lparr>apiKey = JStr ''key'', options_path = ''/api/key'',
     options_headers = Some (JStr ''key''), waitTimePut = 50, waitTimePutGroup = 1000,
     waitTimeResend = 300, this_path = ''/api/key'', waitForIt = False\<rparr>"

definition timed_out :: js_error where
  "timed_out = \<lparr>kind = HttpError, code = Some ''ETIMEDOUT'', statusCode = None,
     etype = Undefined, description = Undefined, nonCritical = None, has_request = True\<rparr>"

definition connection_reset :: js_error where
  "connection_reset = \<lparr>kind = HttpError, code = Some ''ECONNRESET'', statusCode = None,
     etype = Undefined, description = Undefined, nonCritical = None, has_request = True\<rparr>"

text \<open>
  A runtime for sessions whose keys are strings: the number conversions are not called.
  Of JSON texts it parses the one payload used below. Objects and arrays inherit the
  members of \<open>Object.prototype\<close>, arrays those of \<open>Array.prototype\<close> as well (some of
  them are listed).
\<close>

definition object_members :: "string list" where
  "object_members = [''constructor'', ''__proto__'', ''hasOwnProperty'', ''isPrototypeOf'',
     ''propertyIsEnumerable'', ''toLocaleString'', ''toString'', ''valueOf'',
     ''__defineGetter__'', ''__defineSetter__'', ''__lookupGetter__'', ''__lookupSetter__'']"

definition array_members :: "string list" where
  "array_members = [''at'', ''concat'', ''entries'', ''every'', ''fill'', ''filter'', ''find'',
     ''findIndex'', ''flat'', ''flatMap'', ''forEach'', ''includes'', ''indexOf'', ''join'',
     ''keys'', ''lastIndexOf'', ''map'', ''pop'', ''push'', ''reduce'', ''reduceRight'',
     ''reverse'', ''shift'', ''slice'', ''some'', ''sort'', ''splice'', ''unshift'', ''values'']"

definition inherits :: "jsval \<Rightarrow> string \<Rightarrow> bool" where
  "inherits v k =
     (case v of
        JObj kvs \<Rightarrow> k \<in> set object_members
      | JArr xs \<Rightarrow> k \<in> set object_members \<or> k \<in> set array_members
      | _ \<Rightarrow> False)"

definition update_payload :: string where
  "update_payload = ''[{\"type\":\"update\",\"data\":[{\"id_v1\":\"/lights/1\",\"on\":{\"on\":true},\"dimming\":{\"brightness\":50}}]}]''"

definition update_container :: jsval where
  "update_container =
     JArr [JObj [(''type'', JStr ''update''),
                 (''data'', JArr [JObj [(''id_v1'', JStr ''/lights/1''),
                                        (''on'', JObj [(''on'', JBool True)]),
                                        (''dimming'', JObj [(''brightness'', JNum 50)])]])]]"

definition string_runtime :: js_runtime where
  "string_runtime = \<lparr>NumberToString = (\<lambda>r. ''NaN''), StringToNumber = (\<lambda>s. None),
     JSONparse = (\<lambda>s. if s = update_payload then Some update_container else None),
     Inherits = inherits\<rparr>"

definition reply :: "jsval \<Rightarrow> js_error + http_response" where
  "reply b = Inr \<lparr>r_headers = [], r_body = b, r_request = True\<rparr>"

definition scripted :: "(js_error + http_response) list \<Rightarrow> transport" where
  "scripted outcomes k cl = (if k < length outcomes then outcomes ! k else Inl timed_out)"

definition api_error_item :: "rat \<Rightarrow> jsval" where
  "api_error_item ty = JObj [(''error'', JObj [(''type'', JNum ty),
     (''address'', JStr ''/lights/1/state/bri''), (''description'', JStr ''refused'')])]"

definition success_item :: jsval where
  "success_item = JObj [(''success'', JObj [(''/lights/1/state/on'', JBool True)])]"

text \<open>
  A client in v1 mode with an empty button map: after \<open>init\<close>, and listening on an open
  socket.
\<close>

definition idle :: es_client where
  "idle = \<lparr>retryTime = 10, raw = False, version = 1, requestId = 1, es_request = False,
     es_socket = False, listening = False, buttonMap = Some [], buffer = []\<rparr>"

definition stream :: es_client where
  "stream = \<lparr>retryTime = 10, raw = False, version = 1, requestId = 2, es_request = True,
     es_socket = True, listening = True, buttonMap = Some [], buffer = []\<rparr>"

section \<open>Properties\<close>

subsection \<open>The Zigbee message estimate\<close>

lemma numberOfZigbeeMessages_object:
  "numberOfZigbeeMessages (JObj kvs) = Inr (max 1 (groups_present (map fst kvs)))"
  by (simp add: numberOfZigbeeMessages_def groups_present_def field_groups_def Let_def)

text \<open>
  Claim C9. \<open>numberOfZigbeeMessages\<close> returns 1 for \<open>{on: true}\<close>, 2 for
  \<open>{bri: 100, xy: [0.3, 0.3]}\<close> and 1 for \<open>{}\<close>. For every body object, and for an omitted
  body, it returns a number that is at least 1: the number of field groups present (on;
  bri or bri_inc; any of xy, ct, hue, sat, effect), or 1 when none is.
  (A body of \<open>null\<close> is no object: \<open>Object.keys\<close> raises on it.)
\<close>

theorem numberOfZigbeeMessages_estimate:
  "numberOfZigbeeMessages (JObj [(''on'', JBool True)]) = Inr 1 \<and>
   numberOfZigbeeMessages (JObj [(''bri'', JNum 100), (''xy'', JArr [JNum (3/10), JNum (3/10)])]) = Inr 2 \<and>
   numberOfZigbeeMessages (JObj []) = Inr 1 \<and>
   numberOfZigbeeMessages Undefined = Inr 1 \<and>
   (\<forall>kvs. \<exists>n. numberOfZigbeeMessages (JObj kvs) = Inr n \<and> 1 \<le> n \<and>
      n = max 1 (groups_present (map fst kvs)))"
proof -
  have a: "numberOfZigbeeMessages (JObj [(''on'', JBool True)]) = Inr 1"
    by (simp add: numberOfZigbeeMessages_def)
  have b: "numberOfZigbeeMessages
      (JObj [(''bri'', JNum 100), (''xy'', JArr [JNum (3/10), JNum (3/10)])]) = Inr 2"
    by (simp add: numberOfZigbeeMessages_def)
  have c: "numberOfZigbeeMessages (JObj []) = Inr 1"
    by (simp add: numberOfZigbeeMessages_def)
  have d: "numberOfZigbeeMessages Undefined = Inr 1"
    by (simp add: numberOfZigbeeMessages_def)
  have e: "\<forall>kvs. \<exists>n. numberOfZigbeeMessages (JObj kvs) = Inr n \<and> 1 \<le> n \<and>
      n = max 1 (groups_present (map fst kvs))"
    by (simp add: numberOfZigbeeMessages_object)
  from a b c d e show ?thesis by blast
qed

theorem numberOfZigbeeMessages_estimate_witness:
  "\<exists>n. numberOfZigbeeMessages (JObj [(''on'', JBool False), (''bri_inc'', JNum 10), (''hue'', JNum 1), (''sat'', JNum 2)]) = Inr n
     \<and> 1 \<le> n \<and> n = 3"
proof -
  have "groups_present (map fst [(''on'', JBool False), (''bri_inc'', JNum 10), (''hue'', JNum 1), (''sat'', JNum 2)]) = 3"
    by (simp add: groups_present_def field_groups_def)
  with numberOfZigbeeMessages_estimate show ?thesis
    by (metis max.absorb2 one_le_numeral)
qed

subsection \<open>Helper facts on the executors\<close>

lemma later_scripted: "later (scripted (x # xs)) = scripted xs"
  by (rule ext, rule ext) (simp add: later_def scripted_def)

lemma process_items_append:
  "process_items req (xs @ ys) env =
     (case process_items req xs env of
        (t, Inl e) \<Rightarrow> (t, Inl e)
      | (t, Inr env') \<Rightarrow> (case process_items req ys env' of (t', r) \<Rightarrow> (t @ t', r)))"
  by (induction xs arbitrary: env) (auto split: prod.splits sum.splits)


lemma process_item_critical:
  assumes "get_prop item ''error'' = Inr e" "is_object e"
    "lookup_prop e ''type'' \<notin> set nonCriticalApiErrorTypes"
  shows "process_item rq item env = ([EmitError (api_error rq e)], Inl (api_error rq e))"
  using assms by (simp add: process_item_def)

lemma process_items_critical:
  assumes "process_items rq pre env0 = (t, Inr env)"
    "get_prop item ''error'' = Inr e" "is_object e"
    "lookup_prop e ''type'' \<notin> set nonCriticalApiErrorTypes"
  shows "process_items rq (pre @ item # rest) env0 =
     (t @ [EmitError (api_error rq e)], Inl (api_error rq e))"
  using assms by (simp add: process_items_append process_item_critical)

lemma resend_api_error:
  "resend c (api_error rq e) retry =
     (lookup_prop e ''type'' = JNum 901 \<and> rq \<and> 0 < waitTimeResend c \<and> retry < 5)"
  by (simp add: resend_def api_error_def)

subsection \<open>Non-critical API errors\<close>




subsection \<open>Critical API errors\<close>

text \<open>
  Claim C2, as the code has it. In a v1 response array whose earlier items are processed
  without a throw, the first item whose \<open>error\<close> object has a type outside 6, 7, 8, 201
  ends the loop: the error is emitted and thrown, and whatever follows the item in the
  array has no effect on the outcome. The request then fails with that error, unless the
  type is 901 while a resend is due (the response names its request, \<open>waitTimeResend\<close>
  is positive, fewer than 5 retries were made): then the request is sent again after
  \<open>waitTimeResend\<close> and the outcome is that of the new request.
\<close>

theorem critical_error_aborts_batch:
  assumes pre: "process_items rq pre ([], []) = (t, Inr env)"
    and e: "get_prop item ''error'' = Inr e" "is_object e"
       "lookup_prop e ''type'' \<notin> set nonCriticalApiErrorTypes"
    and net: "net 0 (v1_call c meth resource body) =
       Inr \<lparr>r_headers = hs, r_body = JArr (pre @ item # rest), r_request = rq\<rparr>"
    and hs: "map_of hs ''content-length'' \<noteq> Some ''0''"
  shows "try_request (net 0 (v1_call c meth resource body)) =
       (t @ [EmitError (api_error rq e)], Inl (api_error rq e)) \<and>
     request net c meth resource body retry =
       (if lookup_prop e ''type'' = JNum 901 \<and> rq \<and> 0 < waitTimeResend c \<and> retry < 5
        then (case request (later net) c meth resource
                     (if body = Undefined then JNull else body) (retry + 1) of
                (t', r) \<Rightarrow>
                  (Request (v1_call c meth resource body) # t @ [EmitError (api_error rq e)] @
                     [EmitError (api_error rq e), Sleep (waitTimeResend c)] @ t', r))
        else (Request (v1_call c meth resource body) # t @ [EmitError (api_error rq e)],
              Inl (api_error rq e)))"
proof -
  have n: "try_request (net 0 (v1_call c meth resource body)) =
      (t @ [EmitError (api_error rq e)], Inl (api_error rq e))"
    using process_items_critical [OF pre e, of rest] hs
    by (simp add: net try_request_def)
  have "request net c meth resource body retry =
       (if lookup_prop e ''type'' = JNum 901 \<and> rq \<and> 0 < waitTimeResend c \<and> retry < 5
        then (case request (later net) c meth resource
                     (if body = Undefined then JNull else body) (retry + 1) of
                (t', r) \<Rightarrow>
                  (Request (v1_call c meth resource body) # t @ [EmitError (api_error rq e)] @
                     [EmitError (api_error rq e), Sleep (waitTimeResend c)] @ t', r))
        else (Request (v1_call c meth resource body) # t @ [EmitError (api_error rq e)],
              Inl (api_error rq e)))"
    by (subst request.simps) (simp add: n Let_def resend_api_error split: prod.splits)
  with n show ?thesis by blast
qed

text \<open>
  At the batch \<open>[{error: {type: 1, ...}}, {success: ...}]\<close> the request fails with the
  error of type 1 and the success is not recorded.
\<close>

theorem critical_error_aborts_batch_witness:
  "request (scripted [reply (JArr [api_error_item 1, success_item])]) session ''PUT''
      ''/lights/1/state'' (JObj [(''on'', JBool True)]) 0 =
   ([Request (v1_call session ''PUT'' ''/lights/1/state'' (JObj [(''on'', JBool True)])),
     EmitError (api_error True (JObj [(''type'', JNum 1),
       (''address'', JStr ''/lights/1/state/bri''), (''description'', JStr ''refused'')]))],
    Inl (api_error True (JObj [(''type'', JNum 1),
       (''address'', JStr ''/lights/1/state/bri''), (''description'', JStr ''refused'')])))"
proof -
  let ?e = "JObj [(''type'', JNum 1), (''address'', JStr ''/lights/1/state/bri''),
                (''description'', JStr ''refused'')]"
  let ?net = "scripted [reply (JArr [api_error_item 1, success_item])]"
  have pre: "process_items True [] ([], []) = ([], Inr ([], []))" by simp
  have e: "get_prop (api_error_item 1) ''error'' = Inr ?e" "is_object ?e"
      "lookup_prop ?e ''type'' \<notin> set nonCriticalApiErrorTypes"
    by (simp_all add: api_error_item_def get_prop_def lookup_prop_def
        nonCriticalApiErrorTypes_def)
  have net: "?net 0 (v1_call session ''PUT'' ''/lights/1/state'' (JObj [(''on'', JBool True)])) =
      Inr \<lparr>r_headers = [], r_body = JArr ([] @ api_error_item 1 # [success_item]),
           r_request = True\<rparr>"
    by (simp add: scripted_def reply_def)
  have hs: "map_of ([] :: (string \<times> string) list) ''content-length'' \<noteq> Some ''0''" by simp
  have t1: "lookup_prop ?e ''type'' \<noteq> JNum 901" by (simp add: lookup_prop_def)
  from critical_error_aborts_batch [where net = "?net" and c = session and meth = "''PUT''"
      and resource = "''/lights/1/state''" and body = "JObj [(''on'', JBool True)]"
      and rest = "[success_item]" and retry = 0, OF pre e net hs] t1
  show ?thesis by simp
qed

text \<open>
  The claim as stated fails for type 901: the bridge is busy at the first attempt, the
  request is sent again after 300 ms, and the call returns the response of the second
  attempt.
\<close>

theorem critical_901_counterexample:
  "request (scripted [reply (JArr [api_error_item 901, success_item]), reply (JArr [success_item])])
     session ''PUT'' ''/lights/1/state'' (JObj [(''on'', JBool True)]) 0 =
   ([Request \<lparr>c_method = ''PUT'', c_path = ''/api/key'', c_resource = ''/lights/1/state'',
                c_body = JObj [(''on'', JBool True)], c_headers = None\<rparr>,
     EmitError (api_error True (JObj [(''type'', JNum 901),
         (''address'', JStr ''/lights/1/state/bri''), (''description'', JStr ''refused'')])),
     EmitError (api_error True (JObj [(''type'', JNum 901),
         (''address'', JStr ''/lights/1/state/bri''), (''description'', JStr ''refused'')])),
     Sleep 300,
     Request \<lparr>c_method = ''PUT'', c_path = ''/api/key'', c_resource = ''/lights/1/state'',
                c_body = JObj [(''on'', JBool True)], c_headers = None\<rparr>],
    Inr \<lparr>h_headers = [], h_body = JArr [success_item], h_errors = Some [],
         h_success = Some [(''on'', JBool True)]\<rparr>)"
  by code_simp

subsection \<open>Routing\<close>

text \<open>
  Claim C3, as the code has it. The resource \<open>/resource/light/3\<close> is routed to the v2
  executor with base path \<open>/clip/v2/resource\<close>; the resource requested is made of its
  first two segments, \<open>/resource/light\<close>, and the keys left are \<open>0\<close>, put in front,
  and \<open>3\<close>. The resource \<open>/light/3\<close> is the one requested for \<open>/light/3\<close>, with the
  key \<open>0\<close> left.
\<close>

theorem route_v2:
  "route opath ''/resource/light/3'' =
     \<lparr>via = V2, base_path = ''/clip/v2/resource'', addressed = ''/resource/light'',
      remainder = [''0'', ''3'']\<rparr> \<and>
   route opath ''/light/3'' =
     \<lparr>via = V2, base_path = ''/clip/v2/resource'', addressed = ''/light/3'',
      remainder = [''0'']\<rparr>"
  by (simp add: route_def)

theorem route_resource_light_counterexample:
  "addressed (route ''/api/key'' ''/resource/light/3'') \<noteq> ''/light/3'' \<and>
   remainder (route ''/api/key'' ''/resource/light/3'') \<noteq> [''3'', ''0''] \<and>
   route ''/api/key'' ''/resource/light/3'' =
     \<lparr>via = V2, base_path = ''/clip/v2/resource'', addressed = ''/resource/light'',
      remainder = [''0'', ''3'']\<rparr>"
  by (simp add: route_def)

subsection \<open>Walking the body\<close>





text \<open>
  A key that names an inherited member: \<open>/lights/1/state/constructor\<close> reaches the
  constructor of objects, which the walk of the model does not follow.
\<close>

lemma get_inherited_member:
  "get string_runtime (scripted [reply (JObj [(''state'', JObj [(''on'', JBool True)])])]) session
      ''/lights/1/state/constructor'' =
   (session, [Request \<lparr>c_method = ''GET'', c_path = ''/api/key'', c_resource = ''/lights/1'',
                c_body = JNull, c_headers = None\<rparr>], None)"
  by code_simp

subsection \<open>The retry of the v2 executor\<close>

lemma v1_call_default [simp]:
  "v1_call c meth resource (if body = Undefined then JNull else body) = v1_call c meth resource body"
  by (simp add: v1_call_def)

lemma request_default:
  "request net c meth resource (if body = Undefined then JNull else body) retry =
   request net c meth resource body retry"
  by (simp add: request.simps [of net c meth resource Undefined retry]
      request.simps [of net c meth resource JNull retry] v1_call_def)

lemma request_first:
  "\<exists>t r. request net c meth resource body retry = (Request (v1_call c meth resource body) # t, r)"
  by (subst request.simps) (simp add: Let_def split: prod.splits sum.splits)

lemma request2_first:
  "\<exists>t r. request2 net c meth resource body retry = (Request (v2_call c meth resource body) # t, r)"
  by (simp add: request2_def Let_def split: prod.splits sum.splits)

lemma request_returns:
  assumes "try_request (net 0 (v1_call c meth resource body)) = (t, Inr hr)"
  shows "request net c meth resource body retry = (Request (v1_call c meth resource body) # t, Inr hr)"
  by (subst request.simps) (simp add: assms Let_def)

text \<open>
  Claim C7. When the transport call of \<open>request2\<close> throws an error that is due for a
  resend (the code is ECONNRESET, or the status is 503, or the type is 901; the error names
  its request, \<open>waitTimeResend\<close> is positive and fewer than 5 retries were made), the
  error is emitted, \<open>waitTimeResend\<close> is awaited, and the result is that of \<open>request\<close>,
  the v1 executor, with the retry count one higher: the call made again is a v1 call,
  which passes no headers, and a response to it goes through the \<open>try\<close> block of
  \<open>request\<close>.
\<close>

theorem request2_retries_with_request:
  assumes "code error = Some ''ECONNRESET'' \<or> statusCode error = Some 503 \<or>
           etype error = JNum 901"
    and "has_request error" and "0 < waitTimeResend c" and "retry < 5"
    and "net 0 (v2_call c meth resource body) = Inl error"
  shows "request2 net c meth resource body retry =
     (case request (later net) c meth resource (if body = Undefined then JNull else body)
             (retry + 1) of
        (t', r) \<Rightarrow>
          (Request (v2_call c meth resource body) #
           [EmitError error, Sleep (waitTimeResend c)] @ t', r)) \<and>
     (\<forall>resp t' hr.
        net 1 (v1_call c meth resource body) = Inr resp \<and>
        try_request (Inr resp) = (t', Inr hr) \<longrightarrow>
        request2 net c meth resource body retry =
          ([Request (v2_call c meth resource body), EmitError error,
            Sleep (waitTimeResend c), Request (v1_call c meth resource body)] @ t', Inr hr))"
proof -
  have r: "resend c error retry"
    using assms by (simp add: resend_def)
  have a: "request2 net c meth resource body retry =
     (case request (later net) c meth resource (if body = Undefined then JNull else body)
             (retry + 1) of
        (t', r) \<Rightarrow>
          (Request (v2_call c meth resource body) #
           [EmitError error, Sleep (waitTimeResend c)] @ t', r))"
    using assms(5) r by (simp add: request2_def try_request2_def Let_def)
  have b: "request2 net c meth resource body retry =
          ([Request (v2_call c meth resource body), EmitError error,
            Sleep (waitTimeResend c), Request (v1_call c meth resource body)] @ t', Inr hr)"
    if "net 1 (v1_call c meth resource body) = Inr resp"
      and "try_request (Inr resp) = (t', Inr hr)" for resp t' hr
  proof -
    have "try_request (later net 0 (v1_call c meth resource body)) = (t', Inr hr)"
      using that by (simp add: later_def)
    from request_returns [where net = "later net" and retry = "retry + 1", OF this]
    show ?thesis
      by (simp add: a request_default)
  qed
  from a b show ?thesis by blast
qed

text \<open>
  A GET of \<open>/light/abc\<close> whose connection is reset once: the response to the second
  call is returned with its body as it came, \<open>data\<close> not taken out of it.
\<close>

theorem request2_retries_with_request_witness:
  "request2
     (scripted [Inl connection_reset,
        reply (JObj [(''errors'', JArr []), (''data'', JArr [JObj [(''id'', JStr ''abc'')]])])])
     (session\<lparr>this_path := ''/clip/v2/resource''\<rparr>) ''GET'' ''/light/abc'' Undefined 0 =
   ([Request \<lparr>c_method = ''GET'', c_path = ''/clip/v2/resource'', c_resource = ''/light/abc'',
               c_body = JNull, c_headers = Some (JStr ''key'')\<rparr>,
     EmitError connection_reset, Sleep 300,
     Request \<lparr>c_method = ''GET'', c_path = ''/clip/v2/resource'', c_resource = ''/light/abc'',
               c_body = JNull, c_headers = None\<rparr>],
    Inr \<lparr>h_headers = [],
         h_body = JObj [(''errors'', JArr []), (''data'', JArr [JObj [(''id'', JStr ''abc'')]])],
         h_errors = Some [], h_success = Some []\<rparr>)"
proof -
  let ?b = "JObj [(''errors'', JArr []), (''data'', JArr [JObj [(''id'', JStr ''abc'')]])]"
  let ?net = "scripted [Inl connection_reset, reply ?b]"
  let ?c = "session\<lparr>this_path := ''/clip/v2/resource''\<rparr>"
  have 1: "code connection_reset = Some ''ECONNRESET'' \<or> statusCode connection_reset = Some 503 \<or>
           etype connection_reset = JNum 901"
    by (simp add: connection_reset_def)
  have 2: "has_request connection_reset" by (simp add: connection_reset_def)
  have 3: "0 < waitTimeResend ?c" by (simp add: session_def)
  have 4: "(0::nat) < 5" by simp
  have 5: "?net 0 (v2_call ?c ''GET'' ''/light/abc'' Undefined) = Inl connection_reset"
    by (simp add: scripted_def)
  have 6: "?net 1 (v1_call ?c ''GET'' ''/light/abc'' Undefined) =
      Inr \<lparr>r_headers = [], r_body = ?b, r_request = True\<rparr>"
    by (simp add: scripted_def reply_def)
  have 7: "try_request (Inr \<lparr>r_headers = [], r_body = ?b, r_request = True\<rparr>) =
      ([], Inr \<lparr>h_headers = [], h_body = ?b, h_errors = Some [], h_success = Some []\<rparr>)"
    by (simp add: try_request_def)
  from request2_retries_with_request [where net = "?net" and c = "?c" and retry = 0
      and error = connection_reset and meth = "''GET''" and resource = "''/light/abc''"
      and body = Undefined, OF 1 2 3 4 5, THEN conjunct2, rule_format, OF conjI [OF 6 7]]
  show ?thesis
    by (simp add: v1_call_def v2_call_def session_def)
qed

subsection \<open>The write throttle\<close>

text \<open>
  Claim C4, as the code has it. Of the write operations only \<open>put\<close> waits for the
  throttle gate: while \<open>waitForIt\<close> is set it is suspended and has issued nothing, and a
  \<open>put\<close> that ran on found the gate open. With the gate open and a body that can be
  estimated it closes the gate for the hold time, if positive, and issues its call.
  \<open>post\<close> and \<open>delete\<close> issue their call at once, whatever the gate.
\<close>

theorem put_waits_for_gate:
  "(waitForIt c \<longrightarrow> put net c resource body = (c, [], Awaiting_go)) \<and>
   (\<forall>c' t r. put net c resource body = (c', t, Settled r) \<longrightarrow> \<not> waitForIt c) \<and>
   (\<forall>n. \<not> waitForIt c \<and> numberOfZigbeeMessages body = Inr n \<longrightarrow>
      (\<exists>c' t r cl.
         put net c resource body =
           (c', (if 0 < n * (if startsWith resource ''/groups''
                             then waitTimePutGroup c else waitTimePut c)
                 then [SetTimeout (n * (if startsWith resource ''/groups''
                                         then waitTimePutGroup c else waitTimePut c))]
                 else []) @ Request cl # t, Settled r) \<and>
         c_method cl = ''PUT'' \<and> c_resource cl = resource \<and>
         waitForIt c' = (0 < n * (if startsWith resource ''/groups''
                                   then waitTimePutGroup c else waitTimePut c)))) \<and>
   (\<exists>c' t r cl. post net c resource body = (c', Request cl # t, Settled r) \<and>
      c_method cl = ''POST'' \<and> c_resource cl = resource \<and> waitForIt c' = waitForIt c) \<and>
   (\<exists>c' t r cl. delete net c resource body = (c', Request cl # t, Settled r) \<and>
      c_method cl = ''DELETE'' \<and> c_resource cl = resource \<and> waitForIt c' = waitForIt c)"
proof -
  have issue: "\<exists>t r cl. issue net d meth resource body =
      (d\<lparr>this_path := (if is_v1_resource resource then options_path d
                          else ''/clip/v2/resource'')\<rparr>, Request cl # t, r) \<and>
      c_method cl = meth \<and> c_resource cl = resource" for d meth
  proof (cases "is_v1_resource resource")
    case True
    obtain t r where "request net (d\<lparr>this_path := options_path d\<rparr>) meth resource body 0 =
        (Request (v1_call (d\<lparr>this_path := options_path d\<rparr>) meth resource body) # t, r)"
      using request_first by blast
    with True show ?thesis by (simp add: issue_def v1_call_def)
  next
    case False
    obtain t r where "request2 net (d\<lparr>this_path := ''/clip/v2/resource''\<rparr>) meth resource body 0 =
        (Request (v2_call (d\<lparr>this_path := ''/clip/v2/resource''\<rparr>) meth resource body) # t, r)"
      using request2_first by blast
    with False show ?thesis by (simp add: issue_def v2_call_def)
  qed
  have 1: "waitForIt c \<longrightarrow> put net c resource body = (c, [], Awaiting_go)"
    by (simp add: put_def)
  have 2: "\<forall>c' t r. put net c resource body = (c', t, Settled r) \<longrightarrow> \<not> waitForIt c"
    by (auto simp add: put_def)
  have 3: "\<forall>n. \<not> waitForIt c \<and> numberOfZigbeeMessages body = Inr n \<longrightarrow>
      (\<exists>c' t r cl.
         put net c resource body =
           (c', (if 0 < n * (if startsWith resource ''/groups''
                             then waitTimePutGroup c else waitTimePut c)
                 then [SetTimeout (n * (if startsWith resource ''/groups''
                                         then waitTimePutGroup c else waitTimePut c))]
                 else []) @ Request cl # t, Settled r) \<and>
         c_method cl = ''PUT'' \<and> c_resource cl = resource \<and>
         waitForIt c' = (0 < n * (if startsWith resource ''/groups''
                                   then waitTimePutGroup c else waitTimePut c)))"
  proof (intro allI impI)
    fix n
    assume a: "\<not> waitForIt c \<and> numberOfZigbeeMessages body = Inr n"
    define tm where "tm = n * (if startsWith resource ''/groups''
                               then waitTimePutGroup c else waitTimePut c)"
    define c1 where "c1 = (if 0 < tm then c\<lparr>waitForIt := True\<rparr> else c)"
    define c2 where "c2 = c1\<lparr>this_path := (if is_v1_resource resource then options_path c1
                          else ''/clip/v2/resource'')\<rparr>"
    obtain t r cl where i: "issue net c1 ''PUT'' resource body = (c2, Request cl # t, r)"
      "c_method cl = ''PUT''" "c_resource cl = resource"
      using issue [of c1 "''PUT''"] unfolding c2_def by blast
    have p: "put net c resource body =
        (c2, (if 0 < tm then [SetTimeout tm] else []) @ Request cl # t, Settled r)"
      using a i(1) by (simp add: put_def Let_def tm_def c1_def)
    have w: "waitForIt c2 = (0 < tm)"
      using a by (simp add: c2_def c1_def)
    have "\<exists>c' t r cl.
         put net c resource body =
           (c', (if 0 < tm then [SetTimeout tm] else []) @ Request cl # t, Settled r) \<and>
         c_method cl = ''PUT'' \<and> c_resource cl = resource \<and> waitForIt c' = (0 < tm)"
      using p w i(2,3) by blast
    then show "\<exists>c' t r cl.
         put net c resource body =
           (c', (if 0 < n * (if startsWith resource ''/groups''
                             then waitTimePutGroup c else waitTimePut c)
                 then [SetTimeout (n * (if startsWith resource ''/groups''
                                         then waitTimePutGroup c else waitTimePut c))]
                 else []) @ Request cl # t, Settled r) \<and>
         c_method cl = ''PUT'' \<and> c_resource cl = resource \<and>
         waitForIt c' = (0 < n * (if startsWith resource ''/groups''
                                   then waitTimePutGroup c else waitTimePut c))"
      unfolding tm_def .
  qed
  have 4: "\<exists>c' t r cl. post net c resource body = (c', Request cl # t, Settled r) \<and>
      c_method cl = ''POST'' \<and> c_resource cl = resource \<and> waitForIt c' = waitForIt c"
  proof -
    obtain t r cl where "issue net c ''POST'' resource body =
      (c\<lparr>this_path := (if is_v1_resource resource then options_path c
                          else ''/clip/v2/resource'')\<rparr>, Request cl # t, r)"
      "c_method cl = ''POST''" "c_resource cl = resource"
      using issue [of c "''POST''"] by blast
    then show ?thesis by (simp add: post_def)
  qed
  have 5: "\<exists>c' t r cl. delete net c resource body = (c', Request cl # t, Settled r) \<and>
      c_method cl = ''DELETE'' \<and> c_resource cl = resource \<and> waitForIt c' = waitForIt c"
  proof -
    obtain t r cl where "issue net c ''DELETE'' resource body =
      (c\<lparr>this_path := (if is_v1_resource resource then options_path c
                          else ''/clip/v2/resource'')\<rparr>, Request cl # t, r)"
      "c_method cl = ''DELETE''" "c_resource cl = resource"
      using issue [of c "''DELETE''"] by blast
    then show ?thesis by (simp add: delete_def)
  qed
  from 1 2 3 4 5 show ?thesis by blast
qed

text \<open>A \<open>put\<close> on a closed gate is suspended; after the timer's callback it runs.\<close>

theorem put_waits_for_gate_witness:
  "waitForIt (session\<lparr>waitForIt := True\<rparr>) \<and>
   put (scripted [reply (JArr [success_item])]) (session\<lparr>waitForIt := True\<rparr>)
     ''/lights/1/state'' (JObj [(''on'', JBool True)]) =
     (session\<lparr>waitForIt := True\<rparr>, [], Awaiting_go) \<and>
   put (scripted [reply (JArr [success_item])]) (go (session\<lparr>waitForIt := True\<rparr>))
     ''/lights/1/state'' (JObj [(''on'', JBool True)]) =
     (session\<lparr>waitForIt := True\<rparr>,
      [SetTimeout 50,
       Request \<lparr>c_method = ''PUT'', c_path = ''/api/key'', c_resource = ''/lights/1/state'',
                c_body = JObj [(''on'', JBool True)], c_headers = None\<rparr>],
      Settled (Inr \<lparr>h_headers = [], h_body = JArr [success_item], h_errors = Some [],
                    h_success = Some [(''on'', JBool True)]\<rparr>))"
proof -
  have w: "waitForIt (session\<lparr>waitForIt := True\<rparr>)" by simp
  have a: "put (scripted [reply (JArr [success_item])]) (session\<lparr>waitForIt := True\<rparr>)
     ''/lights/1/state'' (JObj [(''on'', JBool True)]) =
     (session\<lparr>waitForIt := True\<rparr>, [], Awaiting_go)"
    using put_waits_for_gate [of "session\<lparr>waitForIt := True\<rparr>"] w by blast
  have b: "put (scripted [reply (JArr [success_item])]) (go (session\<lparr>waitForIt := True\<rparr>))
     ''/lights/1/state'' (JObj [(''on'', JBool True)]) =
     (session\<lparr>waitForIt := True\<rparr>,
      [SetTimeout 50,
       Request \<lparr>c_method = ''PUT'', c_path = ''/api/key'', c_resource = ''/lights/1/state'',
                c_body = JObj [(''on'', JBool True)], c_headers = None\<rparr>],
      Settled (Inr \<lparr>h_headers = [], h_body = JArr [success_item], h_errors = Some [],
                    h_success = Some [(''on'', JBool True)]\<rparr>))"
    by code_simp
  from w a b show ?thesis by blast
qed

text \<open>
  The claim as stated fails for \<open>post\<close> and \<open>delete\<close>: with the gate closed, each
  issues its request.
\<close>

theorem post_delete_unthrottled_counterexample:
  "post (scripted [reply (JArr [])]) (session\<lparr>waitForIt := True\<rparr>) ''/lights'' Undefined =
     (session\<lparr>waitForIt := True\<rparr>,
      [Request \<lparr>c_method = ''POST'', c_path = ''/api/key'', c_resource = ''/lights'',
                c_body = JNull, c_headers = None\<rparr>],
      Settled (Inr \<lparr>h_headers = [], h_body = JArr [], h_errors = Some [],
                    h_success = Some []\<rparr>)) \<and>
   delete (scripted [reply (JArr [])]) (session\<lparr>waitForIt := True\<rparr>) ''/scenes/7'' Undefined =
     (session\<lparr>waitForIt := True\<rparr>,
      [Request \<lparr>c_method = ''DELETE'', c_path = ''/api/key'', c_resource = ''/scenes/7'',
                c_body = JNull, c_headers = None\<rparr>],
      Settled (Inr \<lparr>h_headers = [], h_body = JArr [], h_errors = Some [],
                    h_success = Some []\<rparr>))"
  by code_simp


subsection \<open>Creating an API key\<close>

lemma set_apiKey_derived: "credentials_derived rt (set_apiKey rt c v)"
  by (simp add: credentials_derived_def set_apiKey_def)

lemma construct_derived:
  assumes "key = JStr s" and "s \<noteq> []"
  shows "credentials_derived rt (construct rt c key)"
  using assms by (simp add: credentials_derived_def construct_def api_path_def)

text \<open>
  Claim C10, as the code has it. When the POST of \<open>getApiKey\<close> throws, the call throws
  the same error and leaves the session with the key it had before, with the path the
  setter derives from that key and with a headers object that carries that key, also
  where the session had none; \<open>this.path\<close> is left at \<open>/api\<close>. For a session whose path
  and headers were derived from its key, nothing but \<open>this.path\<close> has changed. When the
  POST returns, the key is set to \<open>success.username\<close> of the response, the path and the
  header are derived from it, and it is returned.
\<close>

theorem getApiKey_restores:
  assumes "app \<noteq> []"
  shows
    "(\<forall>t e. request net (without_key rt c) ''POST'' ''/'' (devicetype app hostname) 0 = (t, Inl e) \<longrightarrow>
        (\<exists>c'. getApiKey rt hostname net c (JStr app) = (c', t, Inl e) \<and>
           c' = c\<lparr>options_headers := Some (apiKey c), options_path := api_path rt (apiKey c),
                   this_path := ''/api''\<rparr> \<and>
           apiKey c' = apiKey c \<and>
           (credentials_derived rt c \<longrightarrow> c' = c\<lparr>this_path := ''/api''\<rparr>))) \<and>
     (\<forall>t response.
        request net (without_key rt c) ''POST'' ''/'' (devicetype app hostname) 0 =
          (t, Inr response) \<longrightarrow>
        (\<exists>c' key. getApiKey rt hostname net c (JStr app) = (c', t, Inr key) \<and>
           key = (case h_success response of
                    None \<Rightarrow> Undefined
                  | Some succ \<Rightarrow> lookup_prop (JObj succ) ''username'') \<and>
           apiKey c' = key \<and> options_path c' = api_path rt key \<and>
           options_headers c' = Some key))"
  using assms
  by (auto simp add: getApiKey_def Let_def without_key_def set_apiKey_def
      credentials_derived_def)

text \<open>
  A session with a key on a transport that times out, and a session created without a
  key on a bridge that answers with a new key.
\<close>

theorem getApiKey_restores_witness:
  "credentials_derived string_runtime session \<and>
   getApiKey string_runtime ''myhost.local'' (scripted []) session (JStr ''app'') =
     (session\<lparr>this_path := ''/api''\<rparr>,
      [Request \<lparr>c_method = ''POST'', c_path = ''/api'', c_resource = ''/'',
                c_body = JObj [(''devicetype'', JStr ''app#myhost'')], c_headers = None\<rparr>],
      Inl timed_out) \<and>
   getApiKey string_runtime ''myhost.local''
       (scripted [reply (JArr [JObj [(''success'', JObj [(''username'', JStr ''newkey'')])]])])
       (construct string_runtime session Undefined) (JStr ''app'') =
     (session\<lparr>apiKey := JStr ''newkey'', options_path := ''/api/newkey'',
              options_headers := Some (JStr ''newkey''), this_path := ''/api''\<rparr>,
      [Request \<lparr>c_method = ''POST'', c_path = ''/api'', c_resource = ''/'',
                c_body = JObj [(''devicetype'', JStr ''app#myhost'')], c_headers = None\<rparr>],
      Inr (JStr ''newkey''))"
proof -
  let ?cl = "\<lparr>c_method = ''POST'', c_path = ''/api'', c_resource = ''/'',
                c_body = JObj [(''devicetype'', JStr ''app#myhost'')], c_headers = None\<rparr>"
  let ?c0 = "construct string_runtime session Undefined"
  let ?ok = "scripted [reply (JArr [JObj [(''success'', JObj [(''username'', JStr ''newkey'')])]])]"
  have n: "''app'' \<noteq> []" by simp
  have d: "credentials_derived string_runtime session"
    by (simp add: credentials_derived_def session_def api_path_def)
  have r1: "request (scripted []) (without_key string_runtime session) ''POST'' ''/''
      (devicetype ''app'' ''myhost.local'') 0 = ([Request ?cl], Inl timed_out)"
    by code_simp
  have a: "getApiKey string_runtime ''myhost.local'' (scripted []) session (JStr ''app'') =
     (session\<lparr>this_path := ''/api''\<rparr>, [Request ?cl], Inl timed_out)"
    using getApiKey_restores [OF n, of "scripted []" string_runtime session "''myhost.local''"]
      r1 d
    by auto
  have c: "getApiKey string_runtime ''myhost.local'' ?ok ?c0 (JStr ''app'') =
     (session\<lparr>apiKey := JStr ''newkey'', options_path := ''/api/newkey'',
              options_headers := Some (JStr ''newkey''), this_path := ''/api''\<rparr>,
      [Request ?cl], Inr (JStr ''newkey''))"
    by code_simp
  from d a c show ?thesis by blast
qed

text \<open>
  The claim as stated fails on a session created without a key: it has no headers object
  before the call, and after the failed call it has one, whose key is \<open>undefined\<close>;
  \<open>this.path\<close> has changed as well.
\<close>

theorem getApiKey_keyless_counterexample:
  "construct string_runtime session Undefined =
     session\<lparr>apiKey := Undefined, options_path := ''/api'', options_headers := None\<rparr> \<and>
   getApiKey string_runtime ''myhost.local'' (scripted [])
       (construct string_runtime session Undefined) (JStr ''app'') =
     (session\<lparr>apiKey := Undefined, options_path := ''/api'',
              options_headers := Some Undefined, this_path := ''/api''\<rparr>,
      [Request \<lparr>c_method = ''POST'', c_path = ''/api'', c_resource = ''/'',
                c_body = JObj [(''devicetype'', JStr ''app#myhost'')], c_headers = None\<rparr>],
      Inl timed_out)"
  by code_simp

subsection \<open>Closing the event stream\<close>

lemma stream_reached:
  "fst (on_response (fst (on_socket (fst (listen idle))))) = stream"
  by (simp add: listen_def on_socket_def on_response_def idle_def stream_def)

text \<open>
  \<open>close\<close> taken alone: called with \<open>retry\<close> false, it destroys the request and emits
  \<open>closed\<close> if the stream was listening, awaits nothing and opens no request.
\<close>

lemma close_alone:
  "close es False =
     (es\<lparr>es_request := False, listening := False\<rparr>,
      (if es_request es then [Destroyed] else []) @
      (if listening es then [ClosedEmitted] else []))"
  by (simp add: close_def Let_def)

text \<open>
  When the socket closes and \<open>retryTime\<close> is positive, the listener awaits
  \<open>retryTime\<close> seconds and calls \<open>listen\<close>, which opens a new request.
\<close>

lemma socket_close_reconnects:
  assumes "es_socket es" and "0 < retryTime es"
  shows "socket_closes es =
     (es\<lparr>es_socket := False, es_request := True, listening := False,
         requestId := requestId es + 1\<rparr>,
      SocketClosed # (if es_request es then [Destroyed] else []) @
      (if listening es then [ClosedEmitted] else []) @
      [Await (retryTime es * 1000), Listen (requestId es + 1)])"
  using assms
  by (simp add: socket_closes_def on_socket_close_def close_def listen_def Let_def)

text \<open>
  A caller's close of a stream that has a request on an open socket destroys the
  request; the socket closes, its listener runs \<open>close(true)\<close>, and with \<open>retryTime\<close>
  positive the client awaits and listens again.
\<close>

lemma caller_close_reconnects_general:
  assumes "es_request es" and "es_socket es" and "0 < retryTime es"
  shows "caller_close es =
     (es\<lparr>es_socket := False, es_request := True, listening := False,
         requestId := requestId es + 1\<rparr>,
      Destroyed # (if listening es then [ClosedEmitted] else []) @
      [SocketClosed, Await (retryTime es * 1000), Listen (requestId es + 1)])"
  using assms
  by (simp add: caller_close_def socket_closes_def on_socket_close_def close_def listen_def
      Let_def)

text \<open>
  Claim C6 says that a close of the stream by its caller never triggers a reconnect. It
  fails on the code at the client that is listening with the default \<open>retryTime\<close> of 10
  seconds: after the caller's close the client awaits 10 seconds and opens request 3.
\<close>

theorem caller_close_reconnects:
  "caller_close stream =
     (stream\<lparr>es_socket := False, listening := False, requestId := 3\<rparr>,
      [Destroyed, ClosedEmitted, SocketClosed, Await 10000, Listen 3])"
  by (simp add: caller_close_def socket_closes_def on_socket_close_def close_def listen_def
      Let_def stream_def)

subsection \<open>Decoding an update in v1 mode\<close>






end
